theory Spec2Isabelle
  imports Main
begin

text \<open>
  The route handlers of \<^verbatim>\<open>server.js\<close>, an Express application in front of a MySQL
  store with a process-local cache, as functions from the state before a request (the
  store's tables and the cache) and the request to the state after it and the reply. The
  requests are handled one at a time.
\<close>

section \<open>JavaScript string helpers used by the handlers\<close>

text \<open>
  Strings are byte strings (\<^typ>\<open>string\<close>); the identifiers, user names and passwords
  the handlers receive are treated as ASCII. A request field that is absent,
  \<^verbatim>\<open>undefined\<close> or \<^verbatim>\<open>null\<close> is \<^term>\<open>None\<close>.
\<close>

definition is_space :: "char \<Rightarrow> bool" where
  \<comment> \<open>The ASCII part of what \<^verbatim>\<open>String.prototype.trim\<close> strips (and of what the
      store skips when it reads a number from a string): TAB, LF, VT, FF, CR, SP.\<close>
  "is_space c = (c \<in> set [CHR 0x09, CHR 0x0A, CHR 0x0B, CHR 0x0C, CHR 0x0D, CHR 0x20])"

definition trim :: "string \<Rightarrow> string" where
  "trim s = rev (dropWhile is_space (rev (dropWhile is_space s)))"

definition padStart :: "nat \<Rightarrow> char \<Rightarrow> string \<Rightarrow> string" where
  \<comment> \<open>\<^verbatim>\<open>s.padStart(n, c)\<close> for a one-character pad string.\<close>
  "padStart n c s = replicate (n - length s) c @ s"

definition is_digit :: "char \<Rightarrow> bool" where
  "is_digit c = (48 \<le> (of_char c :: nat) \<and> (of_char c :: nat) \<le> 57)"

definition numeral_id :: "string \<Rightarrow> bool" where
  \<comment> \<open>An identifier written as a decimal numeral, as the API renders identifiers:
      \<^verbatim>\<open>1\<close>, \<^verbatim>\<open>001\<close>, \<^verbatim>\<open>0042\<close>.\<close>
  "numeral_id X = (X \<noteq> [] \<and> list_all is_digit X)"

definition digit_char :: "nat \<Rightarrow> char" where
  "digit_char d = char_of (48 + d)"

function toString :: "nat \<Rightarrow> string" where
  \<comment> \<open>\<^verbatim>\<open>Number.prototype.toString\<close> on a non-negative integer.\<close>
  "toString n = (if n < 10 then [digit_char n] else toString (n div 10) @ [digit_char (n mod 10)])"
  by pat_completeness auto
termination
  by (relation "measure id") auto

declare toString.simps [simp del]

definition or_str :: "string option \<Rightarrow> string \<Rightarrow> string" where
  \<comment> \<open>\<^verbatim>\<open>v || d\<close> for a string field: absent and empty values are falsy.\<close>
  "or_str v d = (case v of None \<Rightarrow> d | Some s \<Rightarrow> if s = [] then d else s)"

definition or_null :: "string option \<Rightarrow> string option" where
  \<comment> \<open>\<^verbatim>\<open>v || null\<close>.\<close>
  "or_null v = (case v of None \<Rightarrow> None | Some s \<Rightarrow> if s = [] then None else Some s)"

definition or_zero :: "int option \<Rightarrow> int" where
  \<comment> \<open>\<^verbatim>\<open>v || 0\<close> for a numeric field.\<close>
  "or_zero v = (case v of None \<Rightarrow> 0 | Some n \<Rightarrow> n)"

definition truthy_id :: "nat option \<Rightarrow> bool" where
  \<comment> \<open>\<^verbatim>\<open>!!userId\<close>: an absent identifier and the number 0 are falsy.\<close>
  "truthy_id v = (case v of None \<Rightarrow> False | Some n \<Rightarrow> n \<noteq> 0)"

definition truthy_str :: "string option \<Rightarrow> bool" where
  "truthy_str v = (case v of None \<Rightarrow> False | Some s \<Rightarrow> s \<noteq> [])"


section \<open>The store and the cache\<close>

text \<open>
  Rows of table \<^verbatim>\<open>articles\<close>. The key \<^verbatim>\<open>article_id\<close> is a number: the
  create route reads it back as \<^verbatim>\<open>result.insertId\<close> and every reader renders it
  with \<^verbatim>\<open>toString().padStart(3, "0")\<close>. The other columns are nullable.
\<close>

record article_row =
  article_id :: nat
  headline_title :: "string option"
  short_desc :: "string option"
  article_content :: "string option"
  city :: "string option"
  author :: "string option"
  date :: "string option"
  category :: "string option"
  likes :: "int option"
  ads :: "string option"

record visual_row =
  vis_article_id :: nat
  name :: "string option"
  description :: "string option"
  file_type :: "string option"
  css_class :: "string option"
  filepath :: "string option"

record user_row =
  user_id :: nat
  username :: string
  email :: string
  password :: string
  country :: string
  firstname :: string
  lastname :: string
  role :: string
  biography :: "string option"

text \<open>
  The cache is a \<^verbatim>\<open>NodeCache\<close> keyed by strings. The key families
  \<^verbatim>\<open>all_articles\<close>, \<^verbatim>\<open>article_<id>\<close> and \<^verbatim>\<open>visuals_<id>\<close> have different
  prefixes and each holds values of one shape, so the cache is one typed map per
  family, indexed by the part of the key after the prefix. Expiry of entries after
  their time to live is outside the model: it only turns a hit into a miss.
\<close>

record cache =
  all_articles :: "article_row list option"
  article_key :: "string \<rightharpoonup> article_row"
  visuals_key :: "string \<rightharpoonup> visual_row list"

record state =
  store_up :: bool
  articles :: "article_row list"
  visuallist :: "visual_row list"
  users :: "user_row list"
  next_user_id :: nat
  user_interests :: "(nat \<times> string) list"
  user_dislikes :: "(nat \<times> string) list"
  user_subscriptions :: "(nat \<times> string) list"
  user_keyword_reads :: "nat \<times> string \<rightharpoonup> nat"
  cache :: cache

text \<open>
  \<^term>\<open>store_up\<close> says whether \<^verbatim>\<open>createConnection\<close> succeeds during the request;
  when it does not, the handler's \<^verbatim>\<open>catch\<close> block answers.
\<close>

subsection \<open>Statements on table articles\<close>

definition dec_val :: "string \<Rightarrow> nat" where
  "dec_val s = foldl (\<lambda>a c. 10 * a + (of_char c - 48)) 0 s"

definition sql_num :: "string \<Rightarrow> nat option" where
  \<comment> \<open>Modelled from the spec: the declaration of table \<^verbatim>\<open>articles\<close> is not among the
      sources. The identifier is a number that the API renders as a zero-padded
      string, and the store compares it with a string parameter as numbers: blanks
      around the numeral are skipped and leading zeros do not count. A parameter that
      is not a decimal numeral is taken to match no row.\<close>
  "sql_num s =
     (let t = dropWhile is_space s; d = takeWhile is_digit t; r = dropWhile is_digit t
      in if d \<noteq> [] \<and> list_all is_space r then Some (dec_val d) else None)"

definition id_matches :: "string \<Rightarrow> nat \<Rightarrow> bool" where
  \<comment> \<open>\<^verbatim>\<open>WHERE article_id = ?\<close>\<close>
  "id_matches p k = (sql_num p = Some k)"

definition select_article :: "state \<Rightarrow> string \<Rightarrow> article_row list" where
  \<comment> \<open>\<^verbatim>\<open>SELECT * FROM articles WHERE article_id = ?\<close>\<close>
  "select_article st p = filter (\<lambda>r. id_matches p (article_id r)) (articles st)"

definition update_article ::
  "string \<Rightarrow> (article_row \<Rightarrow> article_row) \<Rightarrow> article_row list \<Rightarrow> article_row list" where
  \<comment> \<open>\<^verbatim>\<open>UPDATE articles SET ... WHERE article_id = ?\<close>\<close>
  "update_article p f rows = map (\<lambda>r. if id_matches p (article_id r) then f r else r) rows"

definition delete_from_articles :: "string \<Rightarrow> article_row list \<Rightarrow> article_row list" where
  \<comment> \<open>\<^verbatim>\<open>DELETE FROM articles WHERE article_id = ?\<close>\<close>
  "delete_from_articles p rows = filter (\<lambda>r. \<not> id_matches p (article_id r)) rows"

definition affectedRows :: "string \<Rightarrow> article_row list \<Rightarrow> nat" where
  \<comment> \<open>The rows the \<^verbatim>\<open>WHERE\<close> clause finds (the client library connects with
      the found-rows flag, so an update that changes no column still counts).\<close>
  "affectedRows p rows = length (filter (\<lambda>r. id_matches p (article_id r)) rows)"

subsection \<open>Cache operations\<close>

definition del_all_articles :: "cache \<Rightarrow> cache" where
  \<comment> \<open>\<^verbatim>\<open>cache.del("all_articles")\<close>\<close>
  "del_all_articles c = c\<lparr>all_articles := None\<rparr>"

definition del_article :: "string \<Rightarrow> cache \<Rightarrow> cache" where
  \<comment> \<open>\<^verbatim>\<open>cache.del(`article_${id}`)\<close>\<close>
  "del_article k c = c\<lparr>article_key := (article_key c)(k := None)\<rparr>"

definition del_visuals :: "string \<Rightarrow> cache \<Rightarrow> cache" where
  \<comment> \<open>\<^verbatim>\<open>cache.del(`visuals_${id}`)\<close>\<close>
  "del_visuals k c = c\<lparr>visuals_key := (visuals_key c)(k := None)\<rparr>"


section \<open>Requests and responses\<close>

record article_view =
  out_id :: string
  out_title :: string
  out_description :: string
  out_content :: string
  out_city :: string
  out_author :: string
  out_date :: string
  out_category :: string
  out_likes :: int

record visual_view =
  out_name :: string
  out_vdescription :: string
  out_file_type :: string
  out_css_class :: string
  out_filepath :: string

datatype body =
    ErrorBody string
  | MessageBody string
  | RowsBody "article_row list"
  | ArticleBody article_view
  | VisualsBody "visual_view list"
  | DuplicateBody string bool bool
  | RegisteredBody string nat string
  | SuccessBody
  | LikesBody int

text \<open>
  What a handler does with the request: it sends a response with a status and a JSON
  body, hands the request on with \<^verbatim>\<open>next()\<close>, or returns without doing either, which
  leaves the request unanswered.
\<close>

datatype reply = Reply nat body | Next | NoReply

record article_body =
  req_userId :: "nat option"
  req_title :: "string option"
  req_description :: "string option"
  req_content :: "string option"
  req_city :: "string option"
  req_author :: "string option"
  req_date :: "string option"
  req_category :: "string option"
  req_likes :: "int option"
  req_ads :: "string option"

definition mapArticleFields :: "article_row \<Rightarrow> article_view" where
  "mapArticleFields row =
     \<lparr> out_id = padStart 3 (CHR ''0'') (toString (article_id row)),
       out_title = or_str (headline_title row) ''Untitled Article'',
       out_description = or_str (short_desc row) '''',
       out_content = or_str (article_content row) ''Content not available'',
       out_city = or_str (city row) '''',
       out_author = or_str (author row) '''',
       out_date = or_str (date row) '''',
       out_category = or_str (category row) '''',
       out_likes = or_zero (likes row) \<rparr>"

definition mapVisualFields :: "visual_row list \<Rightarrow> visual_view list" where
  "mapVisualFields rows =
     map (\<lambda>row. \<lparr> out_name = or_str (name row) ''No Name'',
                  out_vdescription = or_str (description row) '''',
                  out_file_type = or_str (file_type row) '''',
                  out_css_class = or_str (css_class row) '''',
                  out_filepath = or_str (filepath row) '''' \<rparr>) rows"


section \<open>Article routes\<close>

definition get_articles :: "state \<Rightarrow> state \<times> reply" where
  \<comment> \<open>\<^verbatim>\<open>app.get("/api/articles")\<close>\<close>
  "get_articles st =
     (case all_articles (cache st) of
        Some cachedArticles \<Rightarrow> (st, Reply 200 (RowsBody cachedArticles))
      | None \<Rightarrow>
          if \<not> store_up st then (st, Reply 500 (ErrorBody ''Failed to fetch articles''))
          else let rows = articles st
               in (st\<lparr>cache := (cache st)\<lparr>all_articles := Some rows\<rparr>\<rparr>,
                   Reply 200 (RowsBody rows)))"

definition get_article_by_id :: "state \<Rightarrow> string \<Rightarrow> state \<times> reply" where
  \<comment> \<open>\<^verbatim>\<open>app.get("/api/articles/:id")\<close>\<close>
  "get_article_by_id st ident =
     (let articleId = padStart 3 (CHR ''0'') (trim ident)
      in case article_key (cache st) articleId of
           Some cachedArticle \<Rightarrow> (st, Reply 200 (ArticleBody (mapArticleFields cachedArticle)))
         | None \<Rightarrow>
             if \<not> store_up st then (st, Reply 500 (ErrorBody ''Failed to fetch article''))
             else (case select_article st articleId of
                     [] \<Rightarrow> (st, Reply 404 (ErrorBody ''Article not found''))
                   | article # _ \<Rightarrow>
                       (st\<lparr>cache := (cache st)\<lparr>article_key :=
                              (article_key (cache st))(articleId \<mapsto> article)\<rparr>\<rparr>,
                        Reply 200 (ArticleBody (mapArticleFields article)))))"

definition set_fields :: "article_body \<Rightarrow> article_row \<Rightarrow> article_row" where
  \<comment> \<open>The \<^verbatim>\<open>SET\<close> list of the update in \<^verbatim>\<open>app.put("/api/articles/:id")\<close>.\<close>
  "set_fields b r =
     r\<lparr> headline_title := Some (or_str (req_title b) ''''),
        short_desc := Some (or_str (req_description b) ''''),
        article_content := Some (or_str (req_content b) ''''),
        city := Some (or_str (req_city b) ''''),
        author := Some (or_str (req_author b) ''''),
        date := or_null (req_date b),
        category := Some (or_str (req_category b) ''''),
        likes := Some (or_zero (req_likes b)) \<rparr>"

definition put_article :: "state \<Rightarrow> string \<Rightarrow> article_body \<Rightarrow> state \<times> reply" where
  \<comment> \<open>\<^verbatim>\<open>app.put("/api/articles/:id")\<close>, the handler registered first\<close>
  "put_article st articleId b =
     (if \<not> store_up st then (st, Reply 500 (ErrorBody ''Failed to update article''))
      else let st' = st\<lparr>articles := update_article articleId (set_fields b) (articles st)\<rparr>
           in if affectedRows articleId (articles st) = 0
              then (st', Reply 404 (ErrorBody ''Article not found''))
              else let paddedId = padStart 3 (CHR ''0'') articleId
                   in (st'\<lparr>cache := del_article paddedId (del_all_articles (cache st'))\<rparr>,
                       Reply 200 (MessageBody ''Article updated successfully'')))"

definition delete_article :: "state \<Rightarrow> string \<Rightarrow> state \<times> reply" where
  \<comment> \<open>\<^verbatim>\<open>app.delete("/api/articles/:id")\<close>\<close>
  "delete_article st articleId =
     (if \<not> store_up st then (st, Reply 500 (ErrorBody ''Failed to delete article''))
      else let st' = st\<lparr>articles := delete_from_articles articleId (articles st)\<rparr>
           in if affectedRows articleId (articles st) = 0
              then (st', Reply 404 (ErrorBody ''Article not found''))
              else let paddedId = padStart 3 (CHR ''0'') articleId
                   in (st'\<lparr>cache := del_visuals paddedId
                                 (del_article paddedId (del_all_articles (cache st')))\<rparr>,
                       Reply 200 (MessageBody ''Article deleted successfully'')))"

definition put_article_checked :: "state \<Rightarrow> string \<Rightarrow> article_body \<Rightarrow> state \<times> reply" where
  \<comment> \<open>\<^verbatim>\<open>app.put("/api/articles/:id")\<close>, the handler registered second ("Article CRUD:
      permission checks"). The branch for a permitted user is a placeholder comment
      and so is the \<^verbatim>\<open>catch\<close> block: neither sends a response.\<close>
  "put_article_checked st articleId b =
     (if \<not> truthy_id (req_userId b) then (st, Reply 403 (ErrorBody ''Forbidden''))
      else if \<not> store_up st then (st, NoReply)
      else case filter (\<lambda>u. Some (user_id u) = req_userId b) (users st) of
             [] \<Rightarrow> (st, Reply 403 (ErrorBody ''Forbidden''))
           | user # _ \<Rightarrow>
               if role user = ''admin'' \<or>
                  (role user = ''editor'' \<and>
                   (case select_article st articleId of
                      [] \<Rightarrow> False
                    | article # _ \<Rightarrow> author article = Some (username user)))
               then (st, NoReply)
               else (st, Reply 403 (ErrorBody ''No permission'')))"

text \<open>
  Express keeps the handlers of a method and path in the order of registration and
  runs the next one only when the current one calls \<^verbatim>\<open>next()\<close>.
\<close>

fun dispatch ::
  "(state \<Rightarrow> string \<Rightarrow> article_body \<Rightarrow> state \<times> reply) list \<Rightarrow>
   state \<Rightarrow> string \<Rightarrow> article_body \<Rightarrow> state \<times> reply" where
  "dispatch [] st ident b = (st, Reply 404 (ErrorBody ''Cannot PUT''))"
| "dispatch (h # hs) st ident b =
     (case h st ident b of
        (st', Next) \<Rightarrow> dispatch hs st' ident b
      | (st', r) \<Rightarrow> (st', r))"

definition put_api_articles :: "state \<Rightarrow> string \<Rightarrow> article_body \<Rightarrow> state \<times> reply" where
  \<comment> \<open>A \<^verbatim>\<open>PUT /api/articles/:id\<close> request: lines 241 and 583 register, in this
      order, the two handlers of the route.\<close>
  "put_api_articles = dispatch [put_article, put_article_checked]"

subsection \<open>Likes\<close>

text \<open>
  The handler computes the count as a JavaScript number, a double: the integers of
  magnitude up to \<open>2 ^ 53\<close> are exact, a larger one is rounded to the nearest double, a
  tie going to the even mantissa.
\<close>

function ulp :: "int \<Rightarrow> int" where
  \<comment> \<open>The distance between neighbouring doubles at a magnitude at least \<open>m\<close>:
      1 below \<open>2 ^ 53\<close>, twice as much with every further bit.\<close>
  "ulp m = (if m < 9007199254740992 then 1 else 2 * ulp (m div 2))"
  by pat_completeness auto
termination
  by (relation "measure nat") auto

declare ulp.simps [simp del]

definition js_number :: "int \<Rightarrow> int" where
  \<comment> \<open>The double nearest to an integer.\<close>
  "js_number n =
     (let m = \<bar>n\<bar>; s = ulp m; q = m div s; r = m mod s;
          q' = (if 2 * r < s \<or> (2 * r = s \<and> even q) then q else q + 1)
      in sgn n * (q' * s))"

definition read_likes :: "int option \<Rightarrow> int" where
  \<comment> \<open>\<^verbatim>\<open>parseInt(rows[0].likes, 10) || 0\<close>: the client library delivers the column as a
      number, and \<^verbatim>\<open>parseInt\<close> of the number of an integer column (below \<open>10 ^ 21\<close>) is
      that number; \<^verbatim>\<open>NULL\<close> gives \<^verbatim>\<open>NaN\<close> and so 0.\<close>
  "read_likes v = (case v of None \<Rightarrow> 0 | Some n \<Rightarrow> js_number n)"

definition like_article ::
  "int \<Rightarrow> state \<Rightarrow> string \<Rightarrow> string option \<Rightarrow> state \<times> reply" where
  \<comment> \<open>\<^verbatim>\<open>app.post("/api/articles/:id/like")\<close>; the third argument is \<^verbatim>\<open>req.params.id\<close>,
      the fourth \<^verbatim>\<open>req.body.action\<close>. The declaration of column \<^verbatim>\<open>likes\<close> is not among
      the sources: the first argument is the largest value the column holds. The store
      refuses a larger one, the update throws and the \<^verbatim>\<open>catch\<close> block answers.\<close>
  "like_article likes_max st ident action =
     (let articleId = padStart 3 (CHR ''0'') (trim ident)
      in if articleId = [] \<or> action \<notin> {Some ''like'', Some ''unlike''}
         then (st, Reply 400 (ErrorBody ''Invalid request''))
         else if \<not> store_up st then (st, Reply 500 (ErrorBody ''Failed to update likes''))
         else case select_article st articleId of
                [] \<Rightarrow> (st, Reply 404 (ErrorBody ''Article not found''))
              | row # _ \<Rightarrow>
                  let likes0 = read_likes (likes row);
                      likes1 = (if action = Some ''like'' then js_number (likes0 + 1)
                                else if action = Some ''unlike'' \<and> likes0 > 0
                                then js_number (likes0 - 1)
                                else likes0)
                  in if likes_max < likes1
                     then (st, Reply 500 (ErrorBody ''Failed to update likes''))
                     else let st' = st\<lparr>articles :=
                                update_article articleId (\<lambda>r. r\<lparr>likes := Some likes1\<rparr>)
                                  (articles st)\<rparr>
                          in (st'\<lparr>cache := del_article articleId (del_all_articles (cache st'))\<rparr>,
                              Reply 200 (LikesBody likes1)))"


section \<open>Administrator routes\<close>

definition requireAdmin :: "state \<Rightarrow> nat option \<Rightarrow> reply" where
  \<comment> \<open>The middleware \<^verbatim>\<open>requireAdmin\<close>; the second argument is
      \<^verbatim>\<open>req.body.userId || req.query.userId\<close>.\<close>
  "requireAdmin st userId =
     (if \<not> truthy_id userId then Reply 403 (ErrorBody ''Forbidden'')
      else if \<not> store_up st then Reply 500 (ErrorBody ''DB error'')
      else case filter (\<lambda>u. Some (user_id u) = userId) (users st) of
             [] \<Rightarrow> Reply 403 (ErrorBody ''Admin only'')
           | u # _ \<Rightarrow> if role u = ''admin'' then Next else Reply 403 (ErrorBody ''Admin only''))"

definition set_fields_admin :: "article_body \<Rightarrow> article_row \<Rightarrow> article_row" where
  \<comment> \<open>The \<^verbatim>\<open>SET\<close> list of \<^verbatim>\<open>app.put('/api/admin/articles/:id')\<close>; title and content
      were checked to be non-empty.\<close>
  "set_fields_admin b r =
     r\<lparr> headline_title := req_title b,
        short_desc := Some (or_str (req_description b) ''''),
        article_content := req_content b,
        city := Some (or_str (req_city b) ''''),
        author := Some (or_str (req_author b) ''''),
        date := or_null (req_date b),
        category := Some (or_str (req_category b) ''''),
        likes := Some (or_zero (req_likes b)),
        ads := or_null (req_ads b) \<rparr>"

definition admin_put_article ::
  "state \<Rightarrow> nat option \<Rightarrow> string \<Rightarrow> article_body \<Rightarrow> state \<times> reply" where
  \<comment> \<open>\<^verbatim>\<open>app.put('/api/admin/articles/:id', requireAdmin, ...)\<close>\<close>
  "admin_put_article st userId articleId b =
     (case requireAdmin st userId of
        Next \<Rightarrow>
          if \<not> truthy_str (req_title b) \<or> \<not> truthy_str (req_content b)
          then (st, Reply 400 (ErrorBody ''Title and content are required''))
          else if \<not> store_up st then (st, Reply 500 (ErrorBody ''Failed to update article''))
          else let st' = st\<lparr>articles :=
                            update_article articleId (set_fields_admin b) (articles st)\<rparr>
               in if affectedRows articleId (articles st) = 0
                  then (st', Reply 404 (ErrorBody ''Article not found''))
                  else (st', Reply 200 (MessageBody ''Article updated successfully''))
      | r \<Rightarrow> (st, r))"

definition admin_delete_article :: "state \<Rightarrow> nat option \<Rightarrow> string \<Rightarrow> state \<times> reply" where
  \<comment> \<open>\<^verbatim>\<open>app.delete('/api/admin/articles/:id', requireAdmin, ...)\<close>\<close>
  "admin_delete_article st userId articleId =
     (case requireAdmin st userId of
        Next \<Rightarrow>
          if \<not> store_up st then (st, Reply 500 (ErrorBody ''Failed to delete article''))
          else let st' = st\<lparr>articles := delete_from_articles articleId (articles st)\<rparr>
               in if affectedRows articleId (articles st) = 0
                  then (st', Reply 404 (ErrorBody ''Article not found''))
                  else (st', Reply 200 (MessageBody ''Article deleted successfully''))
      | r \<Rightarrow> (st, r))"


section \<open>Media\<close>

definition select_visuals :: "state \<Rightarrow> string \<Rightarrow> visual_row list" where
  \<comment> \<open>\<^verbatim>\<open>SELECT * FROM visuallist WHERE article_id = ?\<close>\<close>
  "select_visuals st p = filter (\<lambda>v. id_matches p (vis_article_id v)) (visuallist st)"

definition get_media :: "state \<Rightarrow> string \<Rightarrow> state \<times> reply" where
  \<comment> \<open>\<^verbatim>\<open>app.get("/api/media/:id")\<close>. A cached array is truthy also when it is empty.\<close>
  "get_media st ident =
     (let articleId = trim ident
      in if articleId = [] then (st, Reply 400 (ErrorBody ''Missing article ID''))
         else case visuals_key (cache st) articleId of
                Some visuals \<Rightarrow> (st, Reply 200 (VisualsBody (mapVisualFields visuals)))
              | None \<Rightarrow>
                  if \<not> store_up st then (st, Reply 500 (ErrorBody ''Failed to fetch visuals''))
                  else let rows = select_visuals st articleId
                       in (st\<lparr>cache := (cache st)\<lparr>visuals_key :=
                                (visuals_key (cache st))(articleId \<mapsto> rows)\<rparr>\<rparr>,
                           Reply 200 (VisualsBody (mapVisualFields rows))))"


section \<open>Registration\<close>

definition is_lower :: "char \<Rightarrow> bool" where
  "is_lower c = (97 \<le> (of_char c :: nat) \<and> (of_char c :: nat) \<le> 122)"

definition is_upper :: "char \<Rightarrow> bool" where
  "is_upper c = (65 \<le> (of_char c :: nat) \<and> (of_char c :: nat) \<le> 90)"

definition is_symbol :: "char \<Rightarrow> bool" where
  \<comment> \<open>\<^verbatim>\<open>[@$!%*?&]\<close>\<close>
  "is_symbol c = (c \<in> set ''@$!%*?&'')"

definition in_class :: "char \<Rightarrow> bool" where
  \<comment> \<open>\<^verbatim>\<open>[A-Za-z\d@$!%*?&]\<close>\<close>
  "in_class c = (is_upper c \<or> is_lower c \<or> is_digit c \<or> is_symbol c)"

definition is_line_terminator :: "char \<Rightarrow> bool" where
  \<comment> \<open>What \<^verbatim>\<open>.\<close> does not match.\<close>
  "is_line_terminator c = (c = CHR 0x0A \<or> c = CHR 0x0D)"

definition lookahead :: "(char \<Rightarrow> bool) \<Rightarrow> string \<Rightarrow> bool" where
  \<comment> \<open>\<^verbatim>\<open>(?=.*[cls])\<close> at the start of the input: some character of the class is
      reached over characters that \<^verbatim>\<open>.\<close> matches.\<close>
  "lookahead cls s = list_ex cls (takeWhile (\<lambda>c. \<not> is_line_terminator c) s)"

definition passwordRegex_test :: "string \<Rightarrow> bool" where
  \<comment> \<open>\<^verbatim>\<open>/^(?=.*[a-z])(?=.*[A-Z])(?=.*\d)(?=.*[@$!%*?&])[A-Za-z\d@$!%*?&]{8,}$/.test(s)\<close>\<close>
  "passwordRegex_test s =
     (lookahead is_lower s \<and> lookahead is_upper s \<and> lookahead is_digit s \<and>
      lookahead is_symbol s \<and> 8 \<le> length s \<and> list_all in_class s)"

definition toLowerCase :: "string \<Rightarrow> string" where
  "toLowerCase s = map (\<lambda>c. if is_upper c then char_of (of_char c + (32::nat)) else c) s"

record register_body =
  reg_username :: "string option"
  reg_email :: "string option"
  reg_password :: "string option"
  reg_country :: "string option"
  reg_firstName :: "string option"
  reg_lastName :: "string option"
  reg_biography :: "string option"

definition register ::
  "(string \<Rightarrow> string) \<Rightarrow> state \<Rightarrow> register_body \<Rightarrow> state \<times> reply" where
  \<comment> \<open>\<^verbatim>\<open>app.post("/api/register")\<close>; the first argument stands for
      \<^verbatim>\<open>bcrypt.hash(_, 12)\<close>. The store's \<^verbatim>\<open>LOWER(column) = ?\<close> is equality of the
      lower-cased strings, as the handler's own \<^verbatim>\<open>toLowerCase() ===\<close> is.\<close>
  "register hash st b =
     (if \<not> truthy_str (reg_username b) \<or> \<not> truthy_str (reg_email b) \<or>
         \<not> truthy_str (reg_password b) \<or> \<not> truthy_str (reg_country b) \<or>
         \<not> truthy_str (reg_firstName b) \<or> \<not> truthy_str (reg_lastName b)
      then (st, Reply 400 (ErrorBody ''All fields are required''))
      else let un = the (reg_username b); em = the (reg_email b); pw = the (reg_password b)
      in if \<not> passwordRegex_test pw
         then (st, Reply 400 (ErrorBody
                 ''Password must be at least 8 characters long and include uppercase, lowercase, a number, and a special character.''))
         else if \<not> store_up st then (st, Reply 500 (ErrorBody ''Failed to register user''))
         else let existingUsers =
                    filter (\<lambda>u. toLowerCase (username u) = toLowerCase un \<or>
                                 toLowerCase (email u) = toLowerCase em) (users st)
              in if length existingUsers > 0
                 then let usernameExists =
                            list_ex (\<lambda>u. toLowerCase (username u) = toLowerCase un) existingUsers;
                          emailExists =
                            list_ex (\<lambda>u. toLowerCase (email u) = toLowerCase em) existingUsers
                      in (st, Reply 400 (DuplicateBody
                            (if usernameExists then ''Username already exists''
                             else ''Email already exists'') usernameExists emailExists))
                 else let assignedRole = (if length (users st) = 0 then ''admin'' else ''user'');
                          insertId = next_user_id st;
                          row = \<lparr> user_id = insertId, username = un, email = toLowerCase em,
                                  password = hash pw, country = the (reg_country b),
                                  firstname = the (reg_firstName b),
                                  lastname = the (reg_lastName b), role = assignedRole,
                                  biography = or_null (reg_biography b) \<rparr>
                      in (st\<lparr>users := users st @ [row], next_user_id := Suc insertId\<rparr>,
                          Reply 201 (RegisteredBody ''User registered successfully''
                                       insertId assignedRole)))"


section \<open>Preferences and read tracking\<close>

definition insert_ignore :: "'a \<Rightarrow> 'a list \<Rightarrow> 'a list" where
  \<comment> \<open>Modelled from the spec: the tables' declarations are not among the sources; each
      is a (user, topic) membership set, so the pair is the unique key that
      \<^verbatim>\<open>INSERT IGNORE\<close> respects: a row with the same key makes the insert a no-op.\<close>
  "insert_ignore x rows = (if x \<in> set rows then rows else rows @ [x])"

definition upsert_count :: "'k \<Rightarrow> ('k \<rightharpoonup> nat) \<Rightarrow> ('k \<rightharpoonup> nat)" where
  \<comment> \<open>Modelled from the spec: \<^verbatim>\<open>user_keyword_reads\<close> is a (user, keyword) to count
      accumulator, so the pair is the key of
      \<^verbatim>\<open>INSERT ... VALUES (?, ?, 1) ON DUPLICATE KEY UPDATE count = count + 1\<close>.\<close>
  "upsert_count k m = m(k \<mapsto> (case m k of None \<Rightarrow> 1 | Some c \<Rightarrow> c + 1))"

definition read_count :: "state \<Rightarrow> nat \<Rightarrow> string \<Rightarrow> nat" where
  \<comment> \<open>The count \<^verbatim>\<open>user_keyword_reads\<close> holds for a user and keyword, 0 when it has
      no row for them.\<close>
  "read_count st u k = (case user_keyword_reads st (u, k) of None \<Rightarrow> 0 | Some c \<Rightarrow> c)"

record pref_body =
  pref_userId :: "nat option"
  pref_topic :: "string option"

definition post_interests :: "state \<Rightarrow> pref_body \<Rightarrow> state \<times> reply" where
  \<comment> \<open>\<^verbatim>\<open>app.post('/api/user/interests')\<close>; \<^term>\<open>pref_topic\<close> is the field
      \<^verbatim>\<open>interest\<close>. The handler has no \<^verbatim>\<open>catch\<close>: when the store cannot be
      reached no response is sent.\<close>
  "post_interests st b =
     (if \<not> truthy_id (pref_userId b) \<or> \<not> truthy_str (pref_topic b)
      then (st, Reply 400 (ErrorBody ''Missing input''))
      else if \<not> store_up st then (st, NoReply)
      else (st\<lparr>user_interests :=
                insert_ignore (the (pref_userId b), the (pref_topic b)) (user_interests st)\<rparr>,
            Reply 200 SuccessBody))"

definition post_dislikes :: "state \<Rightarrow> pref_body \<Rightarrow> state \<times> reply" where
  \<comment> \<open>\<^verbatim>\<open>app.post('/api/user/dislikes')\<close>\<close>
  "post_dislikes st b =
     (if \<not> truthy_id (pref_userId b) \<or> \<not> truthy_str (pref_topic b)
      then (st, Reply 400 (ErrorBody ''Missing input''))
      else if \<not> store_up st then (st, NoReply)
      else (st\<lparr>user_dislikes :=
                insert_ignore (the (pref_userId b), the (pref_topic b)) (user_dislikes st)\<rparr>,
            Reply 200 SuccessBody))"

definition post_subscriptions :: "state \<Rightarrow> pref_body \<Rightarrow> state \<times> reply" where
  \<comment> \<open>\<^verbatim>\<open>app.post('/api/user/subscriptions')\<close>\<close>
  "post_subscriptions st b =
     (if \<not> truthy_id (pref_userId b) \<or> \<not> truthy_str (pref_topic b)
      then (st, Reply 400 (ErrorBody ''Missing input''))
      else if \<not> store_up st then (st, NoReply)
      else (st\<lparr>user_subscriptions :=
                insert_ignore (the (pref_userId b), the (pref_topic b)) (user_subscriptions st)\<rparr>,
            Reply 200 SuccessBody))"

record read_body =
  read_userId :: "nat option"
  read_articleId :: "nat option"
  read_keywords :: "string list option"

definition read_keyword :: "nat \<Rightarrow> state \<Rightarrow> string \<Rightarrow> state" where
  \<comment> \<open>The body of the loop over \<^verbatim>\<open>keywords\<close>: the upsert, the re-read of the
      count and the promotion at exactly 3.\<close>
  "read_keyword userId st keyword =
     (let st1 = st\<lparr>user_keyword_reads := upsert_count (userId, keyword) (user_keyword_reads st)\<rparr>;
          row = user_keyword_reads st1 (userId, keyword)
      in if row = Some 3
         then st1\<lparr>user_interests := insert_ignore (userId, keyword) (user_interests st1)\<rparr>
         else st1)"

definition read_article :: "state \<Rightarrow> read_body \<Rightarrow> state \<times> reply" where
  \<comment> \<open>\<^verbatim>\<open>app.post('/api/user/read-article')\<close>; \<^term>\<open>None\<close> for the keywords is a
      value that is not an array.\<close>
  "read_article st b =
     (if \<not> truthy_id (read_userId b) \<or> \<not> truthy_id (read_articleId b) \<or> read_keywords b = None
      then (st, Reply 400 (ErrorBody ''Missing input''))
      else if \<not> store_up st then (st, NoReply)
      else (foldl (read_keyword (the (read_userId b))) st (the (read_keywords b)),
            Reply 200 SuccessBody))"

section \<open>Startup\<close>

definition prefetchArticles :: "state \<Rightarrow> state" where
  \<comment> \<open>\<^verbatim>\<open>prefetchArticles\<close>: one scan of the table, fanned out into the aggregate key
      and one key per article. When the store cannot be reached the function throws
      and the cache stays as it is.\<close>
  "prefetchArticles st =
     (if \<not> store_up st then st
      else let rows = articles st;
               c1 = (cache st)\<lparr>all_articles := Some rows\<rparr>
           in st\<lparr>cache := foldl (\<lambda>c article.
                     c\<lparr>article_key := (article_key c)
                          (padStart 3 (CHR ''0'') (toString (article_id article)) \<mapsto> article)\<rparr>)
                   c1 rows\<rparr>)"


section \<open>Request sequences\<close>

definition like_requests :: "int \<Rightarrow> state \<Rightarrow> (string \<times> string option) list \<Rightarrow> state" where
  \<comment> \<open>A sequence of \<^verbatim>\<open>POST /api/articles/:id/like\<close> requests, each an identifier and an
      action, handled one after the other.\<close>
  "like_requests likes_max st reqs =
     foldl (\<lambda>s (ident, action). fst (like_article likes_max s ident action)) st reqs"

definition likes_floor :: "article_row \<Rightarrow> bool" where
  \<comment> \<open>The stored like count of a row is not negative.\<close>
  "likes_floor r = (case likes r of None \<Rightarrow> True | Some n \<Rightarrow> 0 \<le> n)"

definition read_event :: "nat \<Rightarrow> nat \<Rightarrow> string list \<Rightarrow> read_body" where
  \<comment> \<open>The body \<^verbatim>\<open>{userId, articleId, keywords}\<close> of a read-article event.\<close>
  "read_event u a ks = \<lparr> read_userId = Some u, read_articleId = Some a, read_keywords = Some ks \<rparr>"

definition pref :: "nat \<Rightarrow> string \<Rightarrow> pref_body" where
  \<comment> \<open>The body \<^verbatim>\<open>{userId, topic}\<close> (or \<^verbatim>\<open>{userId, interest}\<close>) of a preference request.\<close>
  "pref u t = \<lparr> pref_userId = Some u, pref_topic = Some t \<rparr>"


section \<open>Sample data\<close>

definition article1 :: article_row where
  "article1 = \<lparr> article_id = 1, headline_title = Some ''Old title'', short_desc = Some ''d'',
      article_content = Some ''c'', city = Some ''Perth'', author = Some ''alice'',
      date = None, category = Some ''news'', likes = Some 0, ads = None \<rparr>"

definition visual1 :: visual_row where
  "visual1 = \<lparr> vis_article_id = 1, name = Some ''Map'', description = None,
      file_type = Some ''image'', css_class = Some ''wide'', filepath = Some ''/img/map.png'' \<rparr>"

definition user_root :: user_row where
  "user_root = \<lparr> user_id = 1, username = ''root'', email = ''root@x.com'', password = ''h1'',
      country = ''AU'', firstname = ''R'', lastname = ''T'', role = ''admin'', biography = None \<rparr>"

definition user_alice :: user_row where
  "user_alice = \<lparr> user_id = 2, username = ''alice'', email = ''a@x.com'', password = ''h2'',
      country = ''AU'', firstname = ''A'', lastname = ''L'', role = ''editor'', biography = None \<rparr>"

definition user_bob :: user_row where
  "user_bob = \<lparr> user_id = 3, username = ''bob'', email = ''b@x.com'', password = ''h3'',
      country = ''AU'', firstname = ''B'', lastname = ''O'', role = ''user'', biography = None \<rparr>"

definition cache0 :: cache where
  "cache0 = \<lparr> all_articles = None, article_key = Map.empty, visuals_key = Map.empty \<rparr>"

definition store0 :: state where
  \<comment> \<open>One article written by the editor alice, three users, a cold cache.\<close>
  "store0 = \<lparr> store_up = True, articles = [article1], visuallist = [visual1],
      users = [user_root, user_alice, user_bob], next_user_id = 4,
      user_interests = [], user_dislikes = [], user_subscriptions = [],
      user_keyword_reads = Map.empty, cache = cache0 \<rparr>"

definition fresh :: state where
  \<comment> \<open>The store before the first registration.\<close>
  "fresh = store0\<lparr> articles := [], visuallist := [], users := [], next_user_id := 1 \<rparr>"

definition hash0 :: "string \<Rightarrow> string" where
  \<comment> \<open>A stand-in for the password hash.\<close>
  "hash0 pw = ''$2b$12$'' @ rev pw"

definition edit :: "nat option \<Rightarrow> string \<Rightarrow> article_body" where
  \<comment> \<open>An update body that sets the title and names the acting user.\<close>
  "edit uid t = \<lparr> req_userId = uid, req_title = Some t, req_description = Some ''d'',
      req_content = Some ''c'', req_city = Some ''Perth'', req_author = Some ''alice'',
      req_date = None, req_category = Some ''news'', req_likes = Some 0, req_ads = None \<rparr>"

definition signup :: "string \<Rightarrow> string \<Rightarrow> string \<Rightarrow> register_body" where
  "signup un em pw = \<lparr> reg_username = Some un, reg_email = Some em, reg_password = Some pw,
      reg_country = Some ''AU'', reg_firstName = Some ''F'', reg_lastName = Some ''L'',
      reg_biography = None \<rparr>"

definition with_likes :: "int \<Rightarrow> state" where
  \<comment> \<open>The sample store with the like count of its article set.\<close>
  "with_likes n = store0\<lparr> articles := [article1\<lparr> likes := Some n \<rparr>] \<rparr>"

definition warm :: state where
  \<comment> \<open>The sample store after the cache warm-up of \<^verbatim>\<open>initializeServer\<close>.\<close>
  "warm = prefetchArticles store0"

section \<open>Properties of the helpers\<close>

subsection \<open>Statements on table articles\<close>

lemma filter_update_article:
  "(\<And>r. article_id (f r) = article_id r) \<Longrightarrow>
   filter (\<lambda>r. id_matches p (article_id r)) (update_article p f rows) =
   map f (filter (\<lambda>r. id_matches p (article_id r)) rows)"
  by (induction rows) (simp_all add: update_article_def)

lemma update_article_all:
  "(\<And>r. r \<in> set rows \<Longrightarrow> P r \<Longrightarrow> P (f r)) \<Longrightarrow> list_all P rows \<Longrightarrow>
   list_all P (update_article p f rows)"
  by (induction rows) (auto simp: update_article_def)

lemma select_article_mem: "select_article st p = row # rest \<Longrightarrow> row \<in> set (articles st)"
proof -
  assume "select_article st p = row # rest"
  then have "row \<in> set (filter (\<lambda>r. id_matches p (article_id r)) (articles st))"
    by (simp add: select_article_def)
  then show ?thesis by simp
qed

lemma padStart_nonempty: "padStart 3 c s \<noteq> []"
  by (cases s) (simp_all add: padStart_def)

subsection \<open>The mapped shapes on the sample rows\<close>

lemma mapArticleFields_sample:
  "mapArticleFields (article1\<lparr>likes := Some 41, date := Some ''2025-05-01''\<rparr>) =
     \<lparr> out_id = ''001'', out_title = ''Old title'', out_description = ''d'', out_content = ''c'',
       out_city = ''Perth'', out_author = ''alice'', out_date = ''2025-05-01'',
       out_category = ''news'', out_likes = 41 \<rparr> \<and>
   out_likes (mapArticleFields (article1\<lparr>likes := None\<rparr>)) = 0 \<and>
   out_title (mapArticleFields (article1\<lparr>headline_title := None\<rparr>)) = ''Untitled Article''"
  by code_simp

lemma mapVisualFields_sample:
  "mapVisualFields [visual1] =
     [\<lparr> out_name = ''Map'', out_vdescription = [], out_file_type = ''image'',
        out_css_class = ''wide'', out_filepath = ''/img/map.png'' \<rparr>] \<and>
   map out_name (mapVisualFields [visual1\<lparr>name := None\<rparr>]) = [''No Name'']"
  by code_simp

subsection \<open>Identifiers written as numerals\<close>

lemma digit_not_space: "is_digit c \<Longrightarrow> \<not> is_space c"
  by (auto simp: is_digit_def is_space_def)

lemma dropWhile_space_digits: "list_all is_digit X \<Longrightarrow> dropWhile is_space X = X"
  by (cases X) (simp_all add: digit_not_space)

lemma trim_numeral: "numeral_id X \<Longrightarrow> trim X = X"
proof -
  assume "numeral_id X"
  then have d: "list_all is_digit X" by (simp add: numeral_id_def)
  then have "list_all is_digit (rev X)" by (simp add: list_all_iff)
  then have "dropWhile is_space (rev X) = rev X" by (rule dropWhile_space_digits)
  with dropWhile_space_digits [OF d] show ?thesis by (simp add: trim_def)
qed

lemma sql_num_numeral: "numeral_id X \<Longrightarrow> sql_num X = Some (dec_val X)"
proof -
  assume n: "numeral_id X"
  then have d: "list_all is_digit X" by (simp add: numeral_id_def)
  have t: "takeWhile is_digit X = X" using d by (simp add: list_all_iff)
  have r: "dropWhile is_digit X = []" using d by (simp add: list_all_iff)
  from n show ?thesis
    by (simp add: sql_num_def dropWhile_space_digits [OF d] t r Let_def numeral_id_def)
qed

lemma zero_is_digit: "is_digit (CHR ''0'')"
  by (simp add: is_digit_def)

lemma numeral_padStart: "numeral_id X \<Longrightarrow> numeral_id (padStart n (CHR ''0'') X)"
  by (auto simp: numeral_id_def padStart_def list_all_iff zero_is_digit)

lemma dec_val_zeros: "dec_val (replicate n (CHR ''0'') @ X) = dec_val X"
proof -
  have "foldl (\<lambda>a c. 10 * a + (of_char c - 48)) (0::nat) (replicate n (CHR ''0'')) = 0"
    by (induction n) simp_all
  then show ?thesis by (simp add: dec_val_def)
qed

lemma sql_num_padStart: "numeral_id X \<Longrightarrow> sql_num (padStart n (CHR ''0'') X) = sql_num X"
  using sql_num_numeral [OF numeral_padStart, of X n] sql_num_numeral [of X]
  by (simp add: padStart_def dec_val_zeros)

subsection \<open>The route PUT /api/articles/:id\<close>

text \<open>
  The handler registered first answers every request, so the handler with the
  permission checks never runs.
\<close>

lemma put_api_articles_eq: "put_api_articles st ident b = put_article st ident b"
  unfolding put_api_articles_def
  by (simp add: put_article_def Let_def split: prod.splits reply.splits)

lemma put_article_ignores_user:
  "put_article st ident (b\<lparr>req_userId := uid\<rparr>) = put_article st ident b"
proof -
  have "set_fields (b\<lparr>req_userId := uid\<rparr>) = set_fields b"
    by (simp add: set_fields_def fun_eq_iff)
  then show ?thesis by (simp add: put_article_def)
qed

subsection \<open>Membership tables and counters\<close>

lemma insert_ignore_idem: "insert_ignore x (insert_ignore x rows) = insert_ignore x rows"
  by (simp add: insert_ignore_def)

lemma insert_ignore_distinct: "distinct rows \<Longrightarrow> distinct (insert_ignore x rows)"
  by (simp add: insert_ignore_def)

lemma count_insert_ignore_same:
  "count_list (insert_ignore x rows) x = (if x \<in> set rows then count_list rows x else 1)"
  by (simp add: insert_ignore_def count_list_0_iff)

lemma count_insert_ignore_other:
  "y \<noteq> x \<Longrightarrow> count_list (insert_ignore y rows) x = count_list rows x"
  by (simp add: insert_ignore_def)

lemma count_distinct_mem: "distinct rows \<Longrightarrow> x \<in> set rows \<Longrightarrow> count_list rows x = 1"
  by (induction rows) (auto simp: count_list_0_iff)

lemma read_keyword_same:
  "user_keyword_reads (read_keyword u st k) (u, k) = Some (read_count st u k + 1) \<and>
   user_interests (read_keyword u st k) =
     (if read_count st u k + 1 = 3 then insert_ignore (u, k) (user_interests st)
      else user_interests st)"
  by (simp add: read_keyword_def upsert_count_def read_count_def Let_def split: option.splits)

lemma read_keyword_other:
  "k' \<noteq> k \<Longrightarrow>
   user_keyword_reads (read_keyword u st k') (u, k) = user_keyword_reads st (u, k) \<and>
   count_list (user_interests (read_keyword u st k')) (u, k) =
     count_list (user_interests st) (u, k)"
  by (simp add: read_keyword_def upsert_count_def Let_def count_insert_ignore_other)

lemma read_keyword_store_up: "store_up (foldl (read_keyword u) st ks) = store_up st"
  by (induction ks arbitrary: st) (simp_all add: read_keyword_def Let_def)

lemma read_other_keywords:
  "k \<notin> set ks \<Longrightarrow>
   user_keyword_reads (foldl (read_keyword u) st ks) (u, k) = user_keyword_reads st (u, k) \<and>
   count_list (user_interests (foldl (read_keyword u) st ks)) (u, k) =
     count_list (user_interests st) (u, k)"
proof (induction ks arbitrary: st)
  case Nil
  then show ?case by simp
next
  case (Cons a ks)
  then have "a \<noteq> k" and "k \<notin> set ks" by auto
  with Cons.IH [of "read_keyword u st a"] read_keyword_other [of a k u st]
  show ?case by simp
qed

lemma read_once:
  assumes "count_list ks k = 1"
  shows "user_keyword_reads (foldl (read_keyword u) st ks) (u, k) = Some (read_count st u k + 1) \<and>
         count_list (user_interests (foldl (read_keyword u) st ks)) (u, k) =
           (if read_count st u k + 1 = 3 \<and> (u, k) \<notin> set (user_interests st) then 1
            else count_list (user_interests st) (u, k))"
  using assms
proof (induction ks arbitrary: st)
  case Nil
  then show ?case by simp
next
  case (Cons a ks)
  show ?case
  proof (cases "a = k")
    case True
    with Cons.prems have "count_list ks k = 0" by simp
    then have "k \<notin> set ks" by (simp add: count_list_0_iff)
    from read_other_keywords [OF this, of u "read_keyword u st k"] read_keyword_same [of u st k] True
    show ?thesis by (simp add: count_insert_ignore_same)
  next
    case False
    with Cons.prems have once: "count_list ks k = 1" by simp
    have same: "user_keyword_reads (read_keyword u st a) (u, k) = user_keyword_reads st (u, k)"
      and cnt: "count_list (user_interests (read_keyword u st a)) (u, k) =
                count_list (user_interests st) (u, k)"
      using read_keyword_other [OF False, of u st] by simp_all
    from cnt have mem: "(u, k) \<in> set (user_interests (read_keyword u st a)) \<longleftrightarrow>
                        (u, k) \<in> set (user_interests st)"
      by (metis count_list_0_iff)
    from same have rd: "read_count (read_keyword u st a) u k = read_count st u k"
      by (simp add: read_count_def)
    from Cons.IH [OF once, of "read_keyword u st a"]
    show ?thesis by (simp add: rd mem cnt)
  qed
qed

lemma read_article_once:
  assumes "store_up st" and "u \<noteq> 0" and "a \<noteq> 0" and "count_list ks k = 1"
  shows "store_up (fst (read_article st (read_event u a ks))) \<and>
         snd (read_article st (read_event u a ks)) = Reply 200 SuccessBody \<and>
         user_keyword_reads (fst (read_article st (read_event u a ks))) (u, k) =
           Some (read_count st u k + 1) \<and>
         count_list (user_interests (fst (read_article st (read_event u a ks)))) (u, k) =
           (if read_count st u k + 1 = 3 \<and> (u, k) \<notin> set (user_interests st) then 1
            else count_list (user_interests st) (u, k))"
  using assms read_once [OF assms(4), of u st]
  by (simp add: read_article_def read_event_def truthy_id_def read_keyword_store_up)

subsection \<open>Likes\<close>

lemma ulp_pos: "0 < ulp m"
  by (induction m rule: ulp.induct) (subst ulp.simps, simp)

lemma ulp_small: "m < 2 ^ 53 \<Longrightarrow> ulp m = 1"
  by (subst ulp.simps) simp

lemma ulp_at_limit: "ulp (2 ^ 53) = 2"
  by (subst ulp.simps, subst ulp.simps) simp

lemma js_number_exact: "\<bar>n\<bar> \<le> 2 ^ 53 \<Longrightarrow> js_number n = n"
proof (cases "\<bar>n\<bar> < 2 ^ 53")
  case True
  then show ?thesis by (simp add: js_number_def ulp_small Let_def mult_sgn_abs)
next
  case False
  assume "\<bar>n\<bar> \<le> 2 ^ 53"
  with False have m: "\<bar>n\<bar> = 2 ^ 53" by simp
  have "sgn n * 2 ^ 53 = n" using mult_sgn_abs [of n] by (simp add: m)
  then show ?thesis using ulp_at_limit by (simp add: js_number_def m Let_def)
qed

lemma js_number_nonneg: "0 \<le> n \<Longrightarrow> 0 \<le> js_number n"
proof -
  assume n: "0 \<le> n"
  have s: "0 < ulp \<bar>n\<bar>" by (rule ulp_pos)
  then have "0 \<le> \<bar>n\<bar> div ulp \<bar>n\<bar>" by (simp add: pos_imp_zdiv_nonneg_iff)
  with n s show ?thesis by (simp add: js_number_def Let_def sgn_if)
qed

lemma read_likes_nonneg: "likes_floor r \<Longrightarrow> 0 \<le> read_likes (likes r)"
  by (auto simp: likes_floor_def read_likes_def js_number_nonneg split: option.splits)

lemma like_article_nonneg:
  assumes "list_all likes_floor (articles st)"
  shows "list_all likes_floor (articles (fst (like_article likes_max st ident action)))"
proof (cases "select_article st (padStart 3 (CHR ''0'') (trim ident))")
  case Nil
  with assms show ?thesis by (simp add: like_article_def Let_def)
next
  case (Cons row rest)
  then have "row \<in> set (articles st)" by (rule select_article_mem)
  with assms have "likes_floor row" by (simp add: list_all_iff)
  then have r: "0 \<le> read_likes (likes row)" by (rule read_likes_nonneg)
  then have up: "0 \<le> js_number (read_likes (likes row) + 1)"
    by (simp add: js_number_nonneg)
  have down: "0 \<le> js_number (read_likes (likes row) - 1)" if "0 < read_likes (likes row)"
    using that by (simp add: js_number_nonneg)
  from assms Cons r up down show ?thesis
    by (auto simp: like_article_def Let_def likes_floor_def intro!: update_article_all)
qed

lemma like_requests_nonneg:
  "list_all likes_floor (articles st) \<Longrightarrow>
   list_all likes_floor (articles (like_requests likes_max st reqs))"
proof (induction reqs arbitrary: st)
  case Nil
  then show ?case by (simp add: like_requests_def)
next
  case (Cons q reqs)
  obtain ident action where q: "q = (ident, action)" by (cases q)
  from Cons.prems
  have "list_all likes_floor (articles (fst (like_article likes_max st ident action)))"
    by (rule like_article_nonneg)
  from Cons.IH [OF this] show ?case by (simp add: like_requests_def q)
qed

lemma like_step:
  assumes "store_up st" and "select_article st (padStart 3 (CHR ''0'') (trim ident)) = [row]"
    and "likes row = Some n" and "0 \<le> n" and "n < 2 ^ 53" and "n + 1 \<le> likes_max"
  shows "snd (like_article likes_max st ident (Some ''like'')) = Reply 200 (LikesBody (n + 1)) \<and>
         select_article (fst (like_article likes_max st ident (Some ''like'')))
             (padStart 3 (CHR ''0'') (trim ident)) =
           [row\<lparr>likes := Some (n + 1)\<rparr>]"
proof -
  let ?k = "padStart 3 (CHR ''0'') (trim ident)"
  from assms(2) have sel: "filter (\<lambda>r. id_matches ?k (article_id r)) (articles st) = [row]"
    by (simp add: select_article_def)
  from assms(4,5) have "js_number n = n" by (intro js_number_exact) simp
  with assms(3) have r: "read_likes (likes row) = n" by (simp add: read_likes_def)
  from assms(4,5) have up: "js_number (n + 1) = n + 1" by (intro js_number_exact) simp
  show ?thesis
    using assms(1,6) padStart_nonempty [of "CHR ''0''" "trim ident"]
    by (simp add: like_article_def Let_def select_article_def filter_update_article sel r up)
qed

lemma like_step_null:
  assumes "store_up st" and "select_article st (padStart 3 (CHR ''0'') (trim ident)) = [row]"
    and "likes row = None" and "1 \<le> likes_max"
  shows "snd (like_article likes_max st ident (Some ''like'')) = Reply 200 (LikesBody 1) \<and>
         select_article (fst (like_article likes_max st ident (Some ''like'')))
             (padStart 3 (CHR ''0'') (trim ident)) =
           [row\<lparr>likes := Some 1\<rparr>]"
proof -
  let ?k = "padStart 3 (CHR ''0'') (trim ident)"
  from assms(2) have sel: "filter (\<lambda>r. id_matches ?k (article_id r)) (articles st) = [row]"
    by (simp add: select_article_def)
  from assms(3) have r: "read_likes (likes row) = 0" by (simp add: read_likes_def)
  have up: "js_number 1 = 1" by (intro js_number_exact) simp
  show ?thesis
    using assms(1,4) padStart_nonempty [of "CHR ''0''" "trim ident"]
    by (simp add: like_article_def Let_def select_article_def filter_update_article sel r up)
qed

lemma unlike_step:
  assumes "store_up st" and "select_article st (padStart 3 (CHR ''0'') (trim ident)) = [row]"
    and "likes row = Some 0 \<or> likes row = None" and "0 \<le> likes_max"
  shows "snd (like_article likes_max st ident (Some ''unlike'')) = Reply 200 (LikesBody 0) \<and>
         select_article (fst (like_article likes_max st ident (Some ''unlike'')))
             (padStart 3 (CHR ''0'') (trim ident)) =
           [row\<lparr>likes := Some 0\<rparr>]"
proof -
  let ?k = "padStart 3 (CHR ''0'') (trim ident)"
  from assms(2) have sel: "filter (\<lambda>r. id_matches ?k (article_id r)) (articles st) = [row]"
    by (simp add: select_article_def)
  have "js_number 0 = 0" by (intro js_number_exact) simp
  with assms(3) have r: "read_likes (likes row) = 0" by (auto simp: read_likes_def)
  show ?thesis
    using assms(1,4) padStart_nonempty [of "CHR ''0''" "trim ident"]
    by (simp add: like_article_def Let_def select_article_def filter_update_article sel r)
qed

subsection \<open>Cache coherence for identifiers written as numerals\<close>

lemma fresh_after_put:
  assumes "numeral_id X" and "put_api_articles st X b = (st', Reply 200 m)"
  shows "select_article st X \<noteq> [] \<and>
         select_article st' X = map (set_fields b) (select_article st X) \<and>
         snd (get_article_by_id st' X) =
           Reply 200 (ArticleBody (mapArticleFields (set_fields b (hd (select_article st X)))))"
proof -
  let ?k = "padStart 3 (CHR ''0'') X"
  have put: "put_article st X b = (st', Reply 200 m)"
    using assms(2) by (simp add: put_api_articles_eq)
  then have up: "store_up st" and aff: "affectedRows X (articles st) \<noteq> 0"
    by (auto simp: put_article_def Let_def split: if_splits)
  from put up aff
  have st': "st' = st\<lparr>articles := update_article X (set_fields b) (articles st),
                      cache := del_article ?k (del_all_articles (cache st))\<rparr>"
    by (simp add: put_article_def Let_def)
  have idk: "id_matches ?k = id_matches X"
    by (simp add: id_matches_def fun_eq_iff sql_num_padStart [OF assms(1)])
  have sel: "select_article st' X = map (set_fields b) (select_article st X)"
    by (simp add: st' select_article_def filter_update_article set_fields_def)
  from aff have ne: "select_article st X \<noteq> []"
    by (simp add: affectedRows_def select_article_def)
  then obtain row rest where rr: "select_article st X = row # rest"
    by (cases "select_article st X") auto
  have selk: "select_article st' ?k = select_article st' X"
    by (simp add: select_article_def idk)
  have miss: "article_key (cache st') ?k = None"
    by (simp add: st' del_article_def del_all_articles_def)
  have "store_up st'" using up by (simp add: st')
  then have "snd (get_article_by_id st' X) =
             Reply 200 (ArticleBody (mapArticleFields (set_fields b row)))"
    by (simp add: get_article_by_id_def trim_numeral [OF assms(1)] Let_def miss selk sel rr)
  with sel ne rr show ?thesis by simp
qed

lemma gone_after_delete:
  assumes "numeral_id X" and "delete_article st X = (st', Reply 200 m)"
  shows "snd (get_article_by_id st' X) = Reply 404 (ErrorBody ''Article not found'') \<and>
         snd (get_articles st') = Reply 200 (RowsBody (articles st')) \<and>
         select_article st' X = []"
proof -
  let ?k = "padStart 3 (CHR ''0'') X"
  from assms(2) have up: "store_up st" and aff: "affectedRows X (articles st) \<noteq> 0"
    by (auto simp: delete_article_def Let_def split: if_splits)
  from assms(2) up aff
  have st': "st' = st\<lparr>articles := delete_from_articles X (articles st),
                      cache := del_visuals ?k (del_article ?k (del_all_articles (cache st)))\<rparr>"
    by (simp add: delete_article_def Let_def)
  have idk: "id_matches ?k = id_matches X"
    by (simp add: id_matches_def fun_eq_iff sql_num_padStart [OF assms(1)])
  have sel: "select_article st' X = []"
    by (simp add: st' select_article_def delete_from_articles_def)
  have selk: "select_article st' ?k = []"
    using sel by (simp add: select_article_def idk)
  have miss: "article_key (cache st') ?k = None" and miss_all: "all_articles (cache st') = None"
    by (simp_all add: st' del_article_def del_all_articles_def del_visuals_def)
  have up': "store_up st'" using up by (simp add: st')
  show ?thesis using up'
    by (simp add: get_article_by_id_def get_articles_def trim_numeral [OF assms(1)] Let_def miss
        miss_all selk sel)
qed

lemma deleted_not_listed:
  assumes "delete_article st X = (st', Reply 200 m)"
  shows "snd (get_articles st') = Reply 200 (RowsBody (articles st')) \<and>
         select_article st' X = []"
proof -
  let ?k = "padStart 3 (CHR ''0'') X"
  from assms have up: "store_up st" and aff: "affectedRows X (articles st) \<noteq> 0"
    by (auto simp: delete_article_def Let_def split: if_splits)
  from assms up aff
  have st': "st' = st\<lparr>articles := delete_from_articles X (articles st),
                      cache := del_visuals ?k (del_article ?k (del_all_articles (cache st)))\<rparr>"
    by (simp add: delete_article_def Let_def)
  have sel: "select_article st' X = []"
    by (simp add: st' select_article_def delete_from_articles_def)
  have miss_all: "all_articles (cache st') = None"
    by (simp add: st' del_article_def del_all_articles_def del_visuals_def)
  have "store_up st'" using up by (simp add: st')
  with sel miss_all show ?thesis
    by (simp add: get_articles_def Let_def)
qed

section \<open>The claims\<close>

subsection \<open>C1: who may update an article\<close>

text \<open>
  Claim C1: a \<^verbatim>\<open>PUT /api/articles/:id\<close> request is applied only for an admin, or for an
  editor whose user name is the article's author; every other request, one without an
  acting user included, is answered 403 and leaves the row as it was.

  The route has two handlers. The one registered first updates the row without looking at
  the acting user and always answers, so the one with the permission checks is never
  reached. On the sample store, whose one article was written by alice, a request with no
  acting user and a request by bob, a plain user, are both answered 200 and both change the
  title. The handler with the checks, run on its own, answers 403 to both.
\<close>

theorem put_update_applied_without_permission:
  "snd (put_api_articles store0 ''1'' (edit None ''Defaced'')) =
     Reply 200 (MessageBody ''Article updated successfully'') \<and>
   map headline_title (articles (fst (put_api_articles store0 ''1'' (edit None ''Defaced'')))) =
     [Some ''Defaced''] \<and>
   snd (put_api_articles store0 ''1'' (edit (Some 3) ''Defaced'')) =
     Reply 200 (MessageBody ''Article updated successfully'') \<and>
   map headline_title (articles (fst (put_api_articles store0 ''1'' (edit (Some 3) ''Defaced'')))) =
     [Some ''Defaced''] \<and>
   snd (put_article_checked store0 ''1'' (edit None ''Defaced'')) =
     Reply 403 (ErrorBody ''Forbidden'') \<and>
   snd (put_article_checked store0 ''1'' (edit (Some 3) ''Defaced'')) =
     Reply 403 (ErrorBody ''No permission'')"
  by code_simp


subsection \<open>C2: media of an article\<close>

text \<open>
  Claim C2: \<^verbatim>\<open>GET /api/media/:id\<close> answers 404 with an error object when the store holds
  no media row for the identifier and nothing is cached, and the mapped rows otherwise.

  As stated the claim fails: the handler has no branch for an empty result. On the sample
  store, which holds no media for article 7 and has a cold cache, the response is 200 with
  an empty array.
\<close>

theorem get_media_empty_is_not_404:
  "select_visuals store0 ''7'' = [] \<and> visuals_key (cache store0) ''7'' = None \<and>
   snd (get_media store0 ''7'') = Reply 200 (VisualsBody [])"
  by code_simp

text \<open>
  Claim C2, amended: for a request with a non-blank identifier, the store being reachable:
  when nothing is cached for the identifier, the response is 200 with the store's rows for
  it mapped to name, description, file_type, css_class and filepath (the empty array when
  the store holds none), and these rows are cached under \<^verbatim>\<open>visuals_<id>\<close>; when
  an entry is cached, the response is 200 with the cached rows mapped and nothing changes.
\<close>

theorem get_media_reply:
  assumes "store_up st" and "trim ident \<noteq> []"
  shows "(visuals_key (cache st) (trim ident) = None \<longrightarrow>
            snd (get_media st ident) =
              Reply 200 (VisualsBody (mapVisualFields (select_visuals st (trim ident)))) \<and>
            visuals_key (cache (fst (get_media st ident))) (trim ident) =
              Some (select_visuals st (trim ident)) \<and>
            (select_visuals st (trim ident) = [] \<longrightarrow>
               snd (get_media st ident) = Reply 200 (VisualsBody []))) \<and>
         (\<forall>visuals. visuals_key (cache st) (trim ident) = Some visuals \<longrightarrow>
            get_media st ident = (st, Reply 200 (VisualsBody (mapVisualFields visuals))))"
  using assms by (simp add: get_media_def Let_def mapVisualFields_def)

theorem get_media_reply_witness:
  "store_up store0 \<and> trim ''1'' \<noteq> [] \<and> visuals_key (cache store0) (trim ''1'') = None \<and>
   select_visuals store0 (trim ''1'') = [visual1] \<and>
   snd (get_media store0 ''1'') = Reply 200 (VisualsBody (mapVisualFields [visual1])) \<and>
   visuals_key (cache (fst (get_media store0 ''1''))) (trim ''1'') = Some [visual1] \<and>
   select_visuals store0 (trim ''7'') = [] \<and>
   snd (get_media store0 ''7'') = Reply 200 (VisualsBody [])"
proof -
  have h: "store_up store0" "trim ''1'' \<noteq> []" "trim ''7'' \<noteq> []"
    "visuals_key (cache store0) (trim ''1'') = None" "visuals_key (cache store0) (trim ''7'') = None"
    "select_visuals store0 (trim ''1'') = [visual1]" "select_visuals store0 (trim ''7'') = []"
    by code_simp+
  from get_media_reply [OF h(1) h(2)] get_media_reply [OF h(1) h(3)] h
  show ?thesis by (simp add: mapVisualFields_def)
qed


subsection \<open>C3: reads after an update or a delete\<close>

text \<open>
  Claim C3: after a successful \<^verbatim>\<open>PUT /api/articles/X\<close> or \<^verbatim>\<open>DELETE /api/articles/X\<close>, a
  \<^verbatim>\<open>GET /api/articles/X\<close> returns the data as changed, not the copy cached before,
  and \<^verbatim>\<open>GET /api/articles\<close> does not list a deleted article.

  The read route trims the identifier before it pads it; the update and delete routes pad
  it as it came. For the identifier \<^verbatim>\<open>" 1"\<close> (the path \<^verbatim>\<open>/api/articles/%201\<close>) the store
  finds article 1, the update or delete succeeds, and the key invalidated is
  \<^verbatim>\<open>article_0 1\<close>, while the read looks under \<^verbatim>\<open>article_001\<close>. On the sample store after
  the warm-up the read that follows the update returns the old title, and the read that
  follows the delete returns the deleted article.

  The same entry stays behind when the update names the article by a longer numeral: an
  update through \<^verbatim>\<open>/api/articles/0001\<close> invalidates \<^verbatim>\<open>article_0001\<close>, and a read of
  \<^verbatim>\<open>/api/articles/1\<close> is then served from \<^verbatim>\<open>article_001\<close>.
\<close>

theorem stale_article_after_put:
  "article_key (cache warm) ''001'' = Some article1 \<and>
   out_title (mapArticleFields article1) = ''Old title'' \<and>
   snd (put_api_articles warm '' 1'' (edit (Some 2) ''New title'')) =
     Reply 200 (MessageBody ''Article updated successfully'') \<and>
   map headline_title (articles (fst (put_api_articles warm '' 1'' (edit (Some 2) ''New title'')))) =
     [Some ''New title''] \<and>
   snd (get_article_by_id (fst (put_api_articles warm '' 1'' (edit (Some 2) ''New title''))) '' 1'') =
     Reply 200 (ArticleBody (mapArticleFields article1)) \<and>
   snd (delete_article warm '' 1'') = Reply 200 (MessageBody ''Article deleted successfully'') \<and>
   articles (fst (delete_article warm '' 1'')) = [] \<and>
   snd (get_article_by_id (fst (delete_article warm '' 1'')) '' 1'') =
     Reply 200 (ArticleBody (mapArticleFields article1)) \<and>
   snd (put_api_articles warm ''0001'' (edit (Some 2) ''New title'')) =
     Reply 200 (MessageBody ''Article updated successfully'') \<and>
   map headline_title (articles (fst (put_api_articles warm ''0001'' (edit (Some 2) ''New title'')))) =
     [Some ''New title''] \<and>
   snd (get_article_by_id (fst (put_api_articles warm ''0001'' (edit (Some 2) ''New title''))) ''1'') =
     Reply 200 (ArticleBody (mapArticleFields article1))"
  by code_simp

text \<open>
  For an identifier written as a decimal numeral and used in the same spelling by both
  requests the reads are coherent: see \<open>fresh_after_put\<close> and \<open>gone_after_delete\<close>.
  Whatever the identifier, the list read after a successful delete comes from the store
  and holds no row the identifier finds: see \<open>deleted_not_listed\<close>.
\<close>


subsection \<open>C4: nothing found, nothing invalidated\<close>

text \<open>
  Claim C4: when the store reports zero rows affected for an update or a delete by
  identifier, the response is 404 and no cache entry is deleted: the cache is what it was
  before the request. This is proved of the routes \<^verbatim>\<open>PUT\<close> and \<^verbatim>\<open>DELETE /api/articles/:id\<close>
  and of the administrator's update and delete, which reach the store once
  \<^verbatim>\<open>requireAdmin\<close> has let the request through.
\<close>

theorem zero_rows_not_found_cache_untouched:
  assumes "store_up st" and "affectedRows ident (articles st) = 0"
  shows "snd (put_api_articles st ident b) = Reply 404 (ErrorBody ''Article not found'') \<and>
         cache (fst (put_api_articles st ident b)) = cache st \<and>
         snd (delete_article st ident) = Reply 404 (ErrorBody ''Article not found'') \<and>
         cache (fst (delete_article st ident)) = cache st \<and>
         (requireAdmin st uid = Next \<and> truthy_str (req_title b) \<and> truthy_str (req_content b) \<longrightarrow>
            snd (admin_put_article st uid ident b) = Reply 404 (ErrorBody ''Article not found'') \<and>
            cache (fst (admin_put_article st uid ident b)) = cache st) \<and>
         (requireAdmin st uid = Next \<longrightarrow>
            snd (admin_delete_article st uid ident) = Reply 404 (ErrorBody ''Article not found'') \<and>
            cache (fst (admin_delete_article st uid ident)) = cache st)"
  using assms
  by (simp add: put_api_articles_eq put_article_def delete_article_def admin_put_article_def
      admin_delete_article_def Let_def)

theorem zero_rows_not_found_cache_untouched_witness:
  "store_up warm \<and> affectedRows ''9'' (articles warm) = 0 \<and>
   requireAdmin warm (Some 1) = Next \<and>
   truthy_str (req_title (edit (Some 1) ''T'')) \<and> truthy_str (req_content (edit (Some 1) ''T'')) \<and>
   snd (put_api_articles warm ''9'' (edit (Some 1) ''T'')) = Reply 404 (ErrorBody ''Article not found'') \<and>
   cache (fst (put_api_articles warm ''9'' (edit (Some 1) ''T''))) = cache warm \<and>
   snd (delete_article warm ''9'') = Reply 404 (ErrorBody ''Article not found'') \<and>
   cache (fst (delete_article warm ''9'')) = cache warm \<and>
   snd (admin_put_article warm (Some 1) ''9'' (edit (Some 1) ''T'')) =
     Reply 404 (ErrorBody ''Article not found'') \<and>
   cache (fst (admin_put_article warm (Some 1) ''9'' (edit (Some 1) ''T''))) = cache warm \<and>
   snd (admin_delete_article warm (Some 1) ''9'') = Reply 404 (ErrorBody ''Article not found'') \<and>
   cache (fst (admin_delete_article warm (Some 1) ''9'')) = cache warm \<and>
   article_key (cache warm) ''001'' = Some article1"
proof -
  have h: "store_up warm" "affectedRows ''9'' (articles warm) = 0"
    "requireAdmin warm (Some 1) = Next"
    "truthy_str (req_title (edit (Some 1) ''T''))" "truthy_str (req_content (edit (Some 1) ''T''))"
    "article_key (cache warm) ''001'' = Some article1"
    by code_simp+
  from zero_rows_not_found_cache_untouched [OF h(1) h(2), of "edit (Some 1) ''T''" "Some 1"] h
  show ?thesis by simp
qed


subsection \<open>C5: reading an article three times\<close>

text \<open>
  Claim C5: a read-article event adds one to the counter of the user and the keyword,
  starting it at 1; the keyword is inserted into the user's interests exactly when the
  count read back after the increment is 3; so three events add the keyword once and a
  fourth adds nothing.

  The first two conjuncts are the body of the loop over the keywords of one event. The
  third is one event that carries the keyword once, whatever other keywords it carries. The
  last is four such events in a row, from a store with no counter for the pair and the
  pair not among the interests.
\<close>

theorem read_article_promotion:
  assumes "store_up st" and "u \<noteq> 0"
    and "a1 \<noteq> 0" and "a2 \<noteq> 0" and "a3 \<noteq> 0" and "a4 \<noteq> 0"
    and "count_list ks1 k = 1" and "count_list ks2 k = 1"
    and "count_list ks3 k = 1" and "count_list ks4 k = 1"
  shows "user_keyword_reads (read_keyword u st k) (u, k) = Some (read_count st u k + 1) \<and>
         user_interests (read_keyword u st k) =
           (if read_count st u k + 1 = 3 then insert_ignore (u, k) (user_interests st)
            else user_interests st) \<and>
         (let st1 = fst (read_article st (read_event u a1 ks1))
          in user_keyword_reads st1 (u, k) = Some (read_count st u k + 1) \<and>
             count_list (user_interests st1) (u, k) =
               (if read_count st u k + 1 = 3 \<and> (u, k) \<notin> set (user_interests st) then 1
                else count_list (user_interests st) (u, k))) \<and>
         (user_keyword_reads st (u, k) = None \<and> (u, k) \<notin> set (user_interests st) \<longrightarrow>
            (let st1 = fst (read_article st (read_event u a1 ks1));
                 st2 = fst (read_article st1 (read_event u a2 ks2));
                 st3 = fst (read_article st2 (read_event u a3 ks3));
                 st4 = fst (read_article st3 (read_event u a4 ks4))
             in user_keyword_reads st1 (u, k) = Some 1 \<and> (u, k) \<notin> set (user_interests st1) \<and>
                user_keyword_reads st2 (u, k) = Some 2 \<and> (u, k) \<notin> set (user_interests st2) \<and>
                user_keyword_reads st3 (u, k) = Some 3 \<and> count_list (user_interests st3) (u, k) = 1 \<and>
                user_keyword_reads st4 (u, k) = Some 4 \<and> count_list (user_interests st4) (u, k) = 1))"
proof -
  let ?st1 = "fst (read_article st (read_event u a1 ks1))"
  let ?st2 = "fst (read_article ?st1 (read_event u a2 ks2))"
  let ?st3 = "fst (read_article ?st2 (read_event u a3 ks3))"
  let ?st4 = "fst (read_article ?st3 (read_event u a4 ks4))"
  note e1 = read_article_once [OF assms(1) assms(2) assms(3) assms(7)]
  from e1 have up1: "store_up ?st1" by simp
  note e2 = read_article_once [OF up1 assms(2) assms(4) assms(8)]
  from e2 have up2: "store_up ?st2" by simp
  note e3 = read_article_once [OF up2 assms(2) assms(5) assms(9)]
  from e3 have up3: "store_up ?st3" by simp
  note e4 = read_article_once [OF up3 assms(2) assms(6) assms(10)]
  have first: "user_keyword_reads ?st1 (u, k) = Some (read_count st u k + 1) \<and>
      count_list (user_interests ?st1) (u, k) =
        (if read_count st u k + 1 = 3 \<and> (u, k) \<notin> set (user_interests st) then 1
         else count_list (user_interests st) (u, k))"
    using e1 by simp
  have four: "user_keyword_reads ?st1 (u, k) = Some 1 \<and> (u, k) \<notin> set (user_interests ?st1) \<and>
      user_keyword_reads ?st2 (u, k) = Some 2 \<and> (u, k) \<notin> set (user_interests ?st2) \<and>
      user_keyword_reads ?st3 (u, k) = Some 3 \<and> count_list (user_interests ?st3) (u, k) = 1 \<and>
      user_keyword_reads ?st4 (u, k) = Some 4 \<and> count_list (user_interests ?st4) (u, k) = 1"
    if none: "user_keyword_reads st (u, k) = None" and out: "(u, k) \<notin> set (user_interests st)"
  proof -
    from none have r0: "read_count st u k = 0" by (simp add: read_count_def)
    from e1 r0 out have c1: "user_keyword_reads ?st1 (u, k) = Some 1"
      and n1: "count_list (user_interests ?st1) (u, k) = 0"
      by (simp_all add: count_list_0_iff)
    from c1 have r1: "read_count ?st1 u k = 1" by (simp add: read_count_def)
    from n1 have o1: "(u, k) \<notin> set (user_interests ?st1)" by (simp add: count_list_0_iff)
    from e2 r1 n1 have c2: "user_keyword_reads ?st2 (u, k) = Some 2"
      and n2: "count_list (user_interests ?st2) (u, k) = 0"
      by simp_all
    from c2 have r2: "read_count ?st2 u k = 2" by (simp add: read_count_def)
    from n2 have o2: "(u, k) \<notin> set (user_interests ?st2)" by (simp add: count_list_0_iff)
    from e3 r2 o2 have c3: "user_keyword_reads ?st3 (u, k) = Some 3"
      and n3: "count_list (user_interests ?st3) (u, k) = 1"
      by simp_all
    from c3 have r3: "read_count ?st3 u k = 3" by (simp add: read_count_def)
    from e4 r3 n3 have c4: "user_keyword_reads ?st4 (u, k) = Some 4"
      and n4: "count_list (user_interests ?st4) (u, k) = 1"
      by simp_all
    from c1 o1 c2 o2 c3 n3 c4 n4 show ?thesis by simp
  qed
  from read_keyword_same [of u st k] first four show ?thesis by (simp add: Let_def)
qed

theorem read_article_promotion_witness:
  "store_up store0 \<and> user_keyword_reads store0 (3, ''cats'') = None \<and>
   (3, ''cats'') \<notin> set (user_interests store0) \<and>
   count_list [''cats'', ''dogs''] ''cats'' = 1 \<and> count_list [''birds'', ''cats''] ''cats'' = 1 \<and>
   (3, ''cats'') \<notin> set (user_interests
      (fst (read_article (fst (read_article store0 (read_event 3 1 [''cats'', ''dogs''])))
         (read_event 3 1 [''cats''])))) \<and>
   count_list (user_interests
      (fst (read_article (fst (read_article (fst (read_article store0
         (read_event 3 1 [''cats'', ''dogs''])))
         (read_event 3 1 [''cats''])))
         (read_event 3 1 [''birds'', ''cats''])))) (3, ''cats'') = 1 \<and>
   count_list (user_interests
      (fst (read_article (fst (read_article (fst (read_article (fst (read_article store0
         (read_event 3 1 [''cats'', ''dogs''])))
         (read_event 3 1 [''cats''])))
         (read_event 3 1 [''birds'', ''cats''])))
         (read_event 3 1 [''cats''])))) (3, ''cats'') = 1 \<and>
   user_keyword_reads
      (fst (read_article (fst (read_article (fst (read_article (fst (read_article store0
         (read_event 3 1 [''cats'', ''dogs''])))
         (read_event 3 1 [''cats''])))
         (read_event 3 1 [''birds'', ''cats''])))
         (read_event 3 1 [''cats'']))) (3, ''cats'') = Some 4"
proof -
  have h: "store_up store0" "(3::nat) \<noteq> 0" "(1::nat) \<noteq> 0"
    "count_list [''cats'', ''dogs''] ''cats'' = 1" "count_list [''cats''] ''cats'' = 1"
    "count_list [''birds'', ''cats''] ''cats'' = 1"
    "user_keyword_reads store0 (3, ''cats'') = None" "(3, ''cats'') \<notin> set (user_interests store0)"
    by (simp_all add: store0_def)
  from read_article_promotion [OF h(1) h(2) h(3) h(3) h(3) h(3) h(4) h(5) h(6) h(5), unfolded Let_def] h
  show ?thesis by blast
qed


subsection \<open>C6: adding a preference twice\<close>

text \<open>
  Claim C6: adding the same (user, topic) pair to the interests, the dislikes or the
  subscriptions a second time succeeds as a no-op, and the table holds exactly one record
  of the pair. The tables start without duplicate keys, as their unique key has it.
\<close>

theorem membership_insert_idempotent:
  assumes "store_up st" and "u \<noteq> 0" and "t \<noteq> []"
    and "distinct (user_interests st)" and "distinct (user_dislikes st)"
    and "distinct (user_subscriptions st)"
  shows "(let st1 = fst (post_interests st (pref u t)); r2 = post_interests st1 (pref u t)
          in snd r2 = Reply 200 SuccessBody \<and> fst r2 = st1 \<and>
             count_list (user_interests (fst r2)) (u, t) = 1) \<and>
         (let st1 = fst (post_dislikes st (pref u t)); r2 = post_dislikes st1 (pref u t)
          in snd r2 = Reply 200 SuccessBody \<and> fst r2 = st1 \<and>
             count_list (user_dislikes (fst r2)) (u, t) = 1) \<and>
         (let st1 = fst (post_subscriptions st (pref u t)); r2 = post_subscriptions st1 (pref u t)
          in snd r2 = Reply 200 SuccessBody \<and> fst r2 = st1 \<and>
             count_list (user_subscriptions (fst r2)) (u, t) = 1)"
  using assms
  by (simp add: post_interests_def post_dislikes_def post_subscriptions_def pref_def
      truthy_id_def truthy_str_def insert_ignore_idem count_insert_ignore_same count_distinct_mem)

theorem membership_insert_idempotent_witness:
  "store_up store0 \<and> (3::nat) \<noteq> 0 \<and> ''news'' \<noteq> [] \<and>
   distinct (user_interests store0) \<and> distinct (user_dislikes store0) \<and>
   distinct (user_subscriptions store0) \<and>
   snd (post_interests (fst (post_interests store0 (pref 3 ''news''))) (pref 3 ''news'')) =
     Reply 200 SuccessBody \<and>
   user_interests (fst (post_interests (fst (post_interests store0 (pref 3 ''news''))) (pref 3 ''news''))) =
     [(3, ''news'')] \<and>
   count_list (user_dislikes
     (fst (post_dislikes (fst (post_dislikes store0 (pref 3 ''news''))) (pref 3 ''news'')))) (3, ''news'') = 1 \<and>
   count_list (user_subscriptions
     (fst (post_subscriptions (fst (post_subscriptions store0 (pref 3 ''news''))) (pref 3 ''news''))))
     (3, ''news'') = 1"
proof -
  have h: "store_up store0" "(3::nat) \<noteq> 0" "''news'' \<noteq> []"
    "distinct (user_interests store0)" "distinct (user_dislikes store0)"
    "distinct (user_subscriptions store0)"
    by (simp_all add: store0_def)
  have i: "user_interests
      (fst (post_interests (fst (post_interests store0 (pref 3 ''news''))) (pref 3 ''news''))) =
     [(3, ''news'')]"
    by code_simp
  from membership_insert_idempotent [OF h, unfolded Let_def] h i
  show ?thesis by blast
qed

subsection \<open>C7: the like count has a floor\<close>

text \<open>
  Claim C7: over every sequence of like and unlike requests the stored like count stays at
  least 0; an unlike on an article whose count is 0 leaves it at 0, and a like adds one.

  As stated the claim fails at the top of the range: the handler adds in a JavaScript
  number, and \<open>2 ^ 53 + 1\<close> is not one. In a column that holds 64-bit counts, a like on
  an article whose count is \<open>2 ^ 53\<close> is answered 200 with the same count and leaves
  the stored count as it was.
\<close>

theorem like_at_two_to_53_adds_nothing:
  "select_article (with_likes 9007199254740992) (padStart 3 (CHR ''0'') (trim ''1'')) =
     [article1\<lparr>likes := Some 9007199254740992\<rparr>] \<and>
   snd (like_article 9223372036854775807 (with_likes 9007199254740992) ''1'' (Some ''like'')) =
     Reply 200 (LikesBody 9007199254740992) \<and>
   map likes (articles
     (fst (like_article 9223372036854775807 (with_likes 9007199254740992) ''1'' (Some ''like'')))) =
     [Some 9007199254740992]"
  by code_simp

text \<open>
  Claim C7, amended: over every sequence of like and unlike requests the stored like count
  stays at least 0; an unlike on an article whose count is 0 (or \<^verbatim>\<open>NULL\<close>) leaves it at
  0; and a like adds one to a count that is below \<open>2 ^ 53\<close> and below the largest value
  the column holds (a \<^verbatim>\<open>NULL\<close> count becomes 1). The sequence may name any articles and
  carry any actions, also requests the handler refuses.
\<close>

theorem like_count_floor:
  "(list_all likes_floor (articles st) \<longrightarrow>
      list_all likes_floor (articles (like_requests likes_max st reqs))) \<and>
   (store_up st \<and> select_article st (padStart 3 (CHR ''0'') (trim ident)) = [row] \<and>
    likes row = Some n \<and> 0 \<le> n \<and> n < 2 ^ 53 \<and> n + 1 \<le> likes_max \<longrightarrow>
      snd (like_article likes_max st ident (Some ''like'')) = Reply 200 (LikesBody (n + 1)) \<and>
      select_article (fst (like_article likes_max st ident (Some ''like'')))
          (padStart 3 (CHR ''0'') (trim ident)) =
        [row\<lparr>likes := Some (n + 1)\<rparr>]) \<and>
   (store_up st \<and> select_article st (padStart 3 (CHR ''0'') (trim ident)) = [row] \<and>
    likes row = None \<and> 1 \<le> likes_max \<longrightarrow>
      snd (like_article likes_max st ident (Some ''like'')) = Reply 200 (LikesBody 1) \<and>
      select_article (fst (like_article likes_max st ident (Some ''like'')))
          (padStart 3 (CHR ''0'') (trim ident)) =
        [row\<lparr>likes := Some 1\<rparr>]) \<and>
   (store_up st \<and> select_article st (padStart 3 (CHR ''0'') (trim ident)) = [row] \<and>
    (likes row = Some 0 \<or> likes row = None) \<and> 0 \<le> likes_max \<longrightarrow>
      snd (like_article likes_max st ident (Some ''unlike'')) = Reply 200 (LikesBody 0) \<and>
      select_article (fst (like_article likes_max st ident (Some ''unlike'')))
          (padStart 3 (CHR ''0'') (trim ident)) =
        [row\<lparr>likes := Some 0\<rparr>])"
  using like_requests_nonneg [of st likes_max reqs] like_step [of st ident row n likes_max]
    like_step_null [of st ident row likes_max] unlike_step [of st ident row likes_max]
  by blast

theorem like_count_floor_witness:
  "list_all likes_floor (articles (with_likes 41)) \<and>
   list_all likes_floor
     (articles (like_requests 2147483647 (with_likes 41)
        [(''1'', Some ''unlike''), (''1'', Some ''like''), ('' 1'', Some ''unlike''),
         (''001'', Some ''unlike'')])) \<and>
   store_up (with_likes 41) \<and>
   select_article (with_likes 41) (padStart 3 (CHR ''0'') (trim ''1'')) =
     [article1\<lparr>likes := Some 41\<rparr>] \<and>
   snd (like_article 2147483647 (with_likes 41) ''1'' (Some ''like'')) = Reply 200 (LikesBody 42) \<and>
   select_article (fst (like_article 2147483647 (with_likes 41) ''1'' (Some ''like'')))
       (padStart 3 (CHR ''0'') (trim ''1'')) = [article1\<lparr>likes := Some 42\<rparr>] \<and>
   store_up store0 \<and> select_article store0 (padStart 3 (CHR ''0'') (trim ''1'')) = [article1] \<and>
   likes article1 = Some 0 \<and>
   snd (like_article 2147483647 store0 ''1'' (Some ''unlike'')) = Reply 200 (LikesBody 0) \<and>
   select_article (fst (like_article 2147483647 store0 ''1'' (Some ''unlike'')))
       (padStart 3 (CHR ''0'') (trim ''1'')) = [article1\<lparr>likes := Some 0\<rparr>] \<and>
   map likes (articles (like_requests 2147483647 (with_likes 41)
        [(''1'', Some ''unlike''), (''1'', Some ''like''), ('' 1'', Some ''like''),
         (''001'', Some ''unlike'')])) = [Some 41] \<and>
   map likes (articles (like_requests 2147483647 store0
        [(''1'', Some ''unlike''), (''1'', Some ''unlike''), (''1'', Some ''like'')])) = [Some 1]"
proof -
  have h: "list_all likes_floor (articles (with_likes 41))" "store_up (with_likes 41)"
    "select_article (with_likes 41) (padStart 3 (CHR ''0'') (trim ''1'')) =
       [article1\<lparr>likes := Some 41\<rparr>]"
    "likes (article1\<lparr>likes := Some 41\<rparr>) = Some 41"
    "store_up store0" "select_article store0 (padStart 3 (CHR ''0'') (trim ''1'')) = [article1]"
    "likes article1 = Some 0"
    "map likes (articles (like_requests 2147483647 (with_likes 41)
        [(''1'', Some ''unlike''), (''1'', Some ''like''), ('' 1'', Some ''like''),
         (''001'', Some ''unlike'')])) = [Some 41]"
    "map likes (articles (like_requests 2147483647 store0
        [(''1'', Some ''unlike''), (''1'', Some ''unlike''), (''1'', Some ''like'')])) = [Some 1]"
    by code_simp+
  from like_count_floor [of "with_likes 41" 2147483647
      "[(''1'', Some ''unlike''), (''1'', Some ''like''), ('' 1'', Some ''unlike''),
        (''001'', Some ''unlike'')]" "''1''" "article1\<lparr>likes := Some 41\<rparr>" 41]
    like_count_floor [of store0 2147483647 "[]" "''1''" article1 0] h
  show ?thesis by simp
qed


text \<open>
  At the largest value of the column the store refuses the update: with a 32-bit column a
  like on a count of \<open>2 ^ 31 - 1\<close> is answered 500 and the count stays.
\<close>

lemma like_refused_at_column_top:
  "snd (like_article 2147483647 (with_likes 2147483647) ''1'' (Some ''like'')) =
     Reply 500 (ErrorBody ''Failed to update likes'') \<and>
   map likes (articles (fst (like_article 2147483647 (with_likes 2147483647) ''1'' (Some ''like'')))) =
     [Some 2147483647]"
  by code_simp


subsection \<open>C8: the first user is the administrator\<close>

text \<open>
  Claim C8: a successful registration against an empty user table stores the new user
  with role admin; a successful registration when a user exists stores it with role user.
  A registration is successful when it is answered 201.
\<close>

theorem first_user_admin:
  assumes "register hash st b = (st', Reply 201 body)"
  shows "\<exists>row. users st' = users st @ [row] \<and>
               role row = (if users st = [] then ''admin'' else ''user'') \<and>
               reg_username b = Some (username row) \<and>
               body = RegisteredBody ''User registered successfully'' (user_id row) (role row)"
  using assms
  by (auto simp: register_def Let_def truthy_str_def split: if_splits option.splits)

theorem first_user_admin_witness:
  "register hash0 fresh (signup ''alice'' ''A@X.COM'' ''Abcdef1!'') =
     (fst (register hash0 fresh (signup ''alice'' ''A@X.COM'' ''Abcdef1!'')),
      Reply 201 (RegisteredBody ''User registered successfully'' 1 ''admin'')) \<and>
   map role (users (fst (register hash0 fresh (signup ''alice'' ''A@X.COM'' ''Abcdef1!'')))) =
     [''admin''] \<and>
   register hash0 (fst (register hash0 fresh (signup ''alice'' ''A@X.COM'' ''Abcdef1!'')))
       (signup ''bob'' ''b@x.com'' ''Abcdef1!'') =
     (fst (register hash0 (fst (register hash0 fresh (signup ''alice'' ''A@X.COM'' ''Abcdef1!'')))
        (signup ''bob'' ''b@x.com'' ''Abcdef1!'')),
      Reply 201 (RegisteredBody ''User registered successfully'' 2 ''user'')) \<and>
   map role (users (fst (register hash0
       (fst (register hash0 fresh (signup ''alice'' ''A@X.COM'' ''Abcdef1!'')))
       (signup ''bob'' ''b@x.com'' ''Abcdef1!'')))) = [''admin'', ''user'']"
proof -
  let ?st1 = "fst (register hash0 fresh (signup ''alice'' ''A@X.COM'' ''Abcdef1!''))"
  let ?st2 = "fst (register hash0 ?st1 (signup ''bob'' ''b@x.com'' ''Abcdef1!''))"
  have r1: "snd (register hash0 fresh (signup ''alice'' ''A@X.COM'' ''Abcdef1!'')) =
      Reply 201 (RegisteredBody ''User registered successfully'' 1 ''admin'')"
    by code_simp
  have r2: "snd (register hash0 ?st1 (signup ''bob'' ''b@x.com'' ''Abcdef1!'')) =
      Reply 201 (RegisteredBody ''User registered successfully'' 2 ''user'')"
    by code_simp
  have u0: "users fresh = []" by code_simp
  have e1: "register hash0 fresh (signup ''alice'' ''A@X.COM'' ''Abcdef1!'') =
      (?st1, Reply 201 (RegisteredBody ''User registered successfully'' 1 ''admin''))"
    using r1 by (simp add: prod_eq_iff)
  have e2: "register hash0 ?st1 (signup ''bob'' ''b@x.com'' ''Abcdef1!'') =
      (?st2, Reply 201 (RegisteredBody ''User registered successfully'' 2 ''user''))"
    using r2 by (simp add: prod_eq_iff)
  from first_user_admin [OF e1] u0 have m1: "map role (users ?st1) = [''admin'']"
    by auto
  from first_user_admin [OF e2] m1 have m2: "map role (users ?st2) = [''admin'', ''user'']"
    by auto
  from e1 e2 m1 m2 show ?thesis by blast
qed


subsection \<open>C9: a user name or an email that is taken\<close>





subsection \<open>C10: a password with a character outside the class\<close>

text \<open>
  Claim C10: a registration whose password holds a character that is not an ASCII letter,
  a digit or one of \<^verbatim>\<open>@$!%*?&\<close> is answered 400 and stores nothing, also when the
  password is 8 characters or longer and holds a lowercase letter, an uppercase letter, a
  digit and one of the symbols.
\<close>

theorem register_rejects_foreign_character:
  assumes "reg_password b = Some pw" and "\<exists>c \<in> set pw. \<not> in_class c"
  shows "\<exists>e. register hash st b = (st, Reply 400 (ErrorBody e))"
proof -
  from assms(2) have "\<not> passwordRegex_test pw"
    by (auto simp: passwordRegex_test_def list_all_iff)
  with assms(1) show ?thesis
    by (simp add: register_def Let_def)
qed

theorem register_rejects_foreign_character_witness:
  "reg_password (signup ''carol'' ''c@x.com'' ''Abcdef1!#'') = Some ''Abcdef1!#'' \<and>
   CHR ''#'' \<in> set ''Abcdef1!#'' \<and> \<not> in_class (CHR ''#'') \<and>
   8 \<le> length ''Abcdef1!#'' \<and> lookahead is_lower ''Abcdef1!#'' \<and>
   lookahead is_upper ''Abcdef1!#'' \<and> lookahead is_digit ''Abcdef1!#'' \<and>
   lookahead is_symbol ''Abcdef1!#'' \<and>
   (\<exists>e. register hash0 fresh (signup ''carol'' ''c@x.com'' ''Abcdef1!#'') =
          (fresh, Reply 400 (ErrorBody e))) \<and>
   snd (register hash0 fresh (signup ''carol'' ''c@x.com'' ''Abcdef1!'')) =
     Reply 201 (RegisteredBody ''User registered successfully'' 1 ''admin'')"
proof -
  have h: "reg_password (signup ''carol'' ''c@x.com'' ''Abcdef1!#'') = Some ''Abcdef1!#''"
    "CHR ''#'' \<in> set ''Abcdef1!#''" "\<not> in_class (CHR ''#'')"
    "8 \<le> length ''Abcdef1!#''" "lookahead is_lower ''Abcdef1!#''"
    "lookahead is_upper ''Abcdef1!#''" "lookahead is_digit ''Abcdef1!#''"
    "lookahead is_symbol ''Abcdef1!#''"
    "snd (register hash0 fresh (signup ''carol'' ''c@x.com'' ''Abcdef1!'')) =
       Reply 201 (RegisteredBody ''User registered successfully'' 1 ''admin'')"
    by code_simp+
  from h(2) h(3) have "\<exists>c \<in> set ''Abcdef1!#''. \<not> in_class c" by blast
  from register_rejects_foreign_character [OF h(1) this, of hash0 fresh] h
  show ?thesis by blast
qed

end
